theory Spec2Isabelle
  imports Main "HOL-Library.Sublist"
begin

section \<open>The note record and the remote client\<close>

text \<open>
  \<^verbatim>\<open>interface Note { id; title; content; category; created_at }\<close> of
  \<^verbatim>\<open>src/components/note-app.tsx\<close>. Every field is a JavaScript string. The field
  \<^verbatim>\<open>id\<close> is named \<open>note_id\<close> here, since \<open>id\<close> is the identity function of HOL.
\<close>

record Note =
  note_id :: string
  title :: string
  content :: string
  category :: string
  created_at :: string

text \<open>
  The object literal \<^verbatim>\<open>newNote\<close> of \<^verbatim>\<open>handleNoteCreate\<close>: the three fields that
  the handler sends to the remote store, which assigns the identifier and the timestamp.
\<close>

record NoteDraft =
  draft_title :: string
  draft_content :: string
  draft_category :: string

datatype StoreError = StoreError string

text \<open>
  What an awaited query of the client resolves to, \<^verbatim>\<open>{ data, error }\<close>: each of the
  two is an object or \<^verbatim>\<open>null\<close>. The handlers test both for truthiness; an object and
  an array (also the empty one) are truthy, \<^verbatim>\<open>null\<close> is not.
\<close>

record 'a response =
  data :: "'a option"
  error :: "StoreError option"

text \<open>
  The four queries that the handlers issue on the imported \<^verbatim>\<open>supabase\<close> client, whose
  code is not part of the component: what each of them resolves to is a parameter.
  \<^item> \<open>select_order\<close>: \<^verbatim>\<open>.from('notes').select('*').order('created_at', {ascending: false})\<close>
  \<^item> \<open>insert_single\<close>: \<^verbatim>\<open>.from('notes').insert([newNote]).select().single()\<close>
  \<^item> \<open>update_eq\<close>: \<^verbatim>\<open>.from('notes').update(updatedNote).eq('id', updatedNote.id)\<close>
  \<^item> \<open>delete_eq\<close>: \<^verbatim>\<open>.from('notes').delete().eq('id', id)\<close>
\<close>

record supabase =
  select_order :: "Note list response"
  insert_single :: "NoteDraft \<Rightarrow> Note response"
  update_eq :: "Note \<Rightarrow> string \<Rightarrow> unit response"
  delete_eq :: "string \<Rightarrow> unit response"

section \<open>The component state\<close>

text \<open>
  The \<^verbatim>\<open>useState\<close> cells of \<^verbatim>\<open>NoteApp\<close> that the handlers read and write, and the
  lines written by \<^verbatim>\<open>console.error\<close> (the message and the error object), oldest first.
  A handler is modelled as running on the state of the render that created it and as
  finishing before the next intent arrives.
\<close>

record state =
  "notes" :: "Note list"
  selectedNoteId :: "string option"
  loading :: bool
  console :: "(string \<times> StoreError) list"

definition initial :: state where
  "initial = \<lparr>notes = [], selectedNoteId = None, loading = True, console = []\<rparr>"

text \<open>\<^verbatim>\<open>!selectedNoteId\<close> on a \<^verbatim>\<open>string | null\<close>: true of \<^verbatim>\<open>null\<close> and of the empty string.\<close>

definition falsy :: "string option \<Rightarrow> bool" where
  "falsy v = (case v of None \<Rightarrow> True | Some x \<Rightarrow> x = [])"

text \<open>\<^verbatim>\<open>notes.find((note) => note.id === selectedNoteId) || null\<close>\<close>

definition selectedNote :: "state \<Rightarrow> Note option" where
  "selectedNote s = find (\<lambda>note. Some (note_id note) = selectedNoteId s) (notes s)"

section \<open>The handlers\<close>

definition fetchNotes :: "supabase \<Rightarrow> state \<Rightarrow> state" where
  "fetchNotes db s =
     (case error (select_order db) of
        Some e \<Rightarrow> s\<lparr>console := console s @ [(''Error fetching notes:'', e)]\<rparr>
      | None \<Rightarrow>
          (case data (select_order db) of
             Some d \<Rightarrow>
               s\<lparr>notes := d,
                 selectedNoteId :=
                   (if length d > 0 \<and> falsy (selectedNoteId s)
                    then Some (note_id (d ! 0)) else selectedNoteId s)\<rparr>
           | None \<Rightarrow> s))
     \<lparr>loading := False\<rparr>"

definition handleNoteSelect :: "string \<Rightarrow> state \<Rightarrow> state" where
  "handleNoteSelect i s = s\<lparr>selectedNoteId := Some i\<rparr>"

definition newNote :: NoteDraft where
  "newNote = \<lparr>draft_title = ''New Note'', draft_content = [],
     draft_category = ''Uncategorized''\<rparr>"

definition handleNoteCreate :: "supabase \<Rightarrow> state \<Rightarrow> state" where
  "handleNoteCreate db s =
     (case error (insert_single db newNote) of
        Some e \<Rightarrow> s\<lparr>console := console s @ [(''Error creating note:'', e)]\<rparr>
      | None \<Rightarrow>
          (case data (insert_single db newNote) of
             Some d \<Rightarrow> s\<lparr>notes := d # notes s, selectedNoteId := Some (note_id d)\<rparr>
           | None \<Rightarrow> s))"

definition handleNoteUpdate :: "supabase \<Rightarrow> Note \<Rightarrow> state \<Rightarrow> state" where
  "handleNoteUpdate db updatedNote s =
     (case error (update_eq db updatedNote (note_id updatedNote)) of
        Some e \<Rightarrow> s\<lparr>console := console s @ [(''Error updating note:'', e)]\<rparr>
      | None \<Rightarrow>
          s\<lparr>notes :=
              map (\<lambda>note. if note_id note = note_id updatedNote then updatedNote else note)
                (notes s)\<rparr>)"

text \<open>
  Both \<^verbatim>\<open>setNotes\<close> and \<^verbatim>\<open>setSelectedNoteId\<close> are computed from the \<^verbatim>\<open>notes\<close> of the
  handler's closure, the collection before the deletion: \<^verbatim>\<open>notes[0]\<close> is the first
  note of the old collection.
\<close>

definition handleNoteDelete :: "supabase \<Rightarrow> string \<Rightarrow> state \<Rightarrow> state" where
  "handleNoteDelete db i s =
     (case error (delete_eq db i) of
        Some e \<Rightarrow> s\<lparr>console := console s @ [(''Error deleting note:'', e)]\<rparr>
      | None \<Rightarrow>
          s\<lparr>notes := filter (\<lambda>note. note_id note \<noteq> i) (notes s),
            selectedNoteId :=
              (if selectedNoteId s = Some i
               then (if length (notes s) > 0 then Some (note_id (notes s ! 0)) else None)
               else selectedNoteId s)\<rparr>)"

subsection \<open>The in-memory variant\<close>

text \<open>
  The second copy of the component keeps the notes in memory only: its
  \<^verbatim>\<open>handleNoteDelete\<close> is the success branch of the one above, with no remote call.
\<close>

record local_state =
  local_notes :: "Note list"
  local_selectedNoteId :: "string option"

definition handleNoteDelete_local :: "string \<Rightarrow> local_state \<Rightarrow> local_state" where
  "handleNoteDelete_local i s =
     s\<lparr>local_notes := filter (\<lambda>note. note_id note \<noteq> i) (local_notes s),
       local_selectedNoteId :=
         (if local_selectedNoteId s = Some i
          then (if length (local_notes s) > 0 then Some (note_id (local_notes s ! 0))
                else None)
          else local_selectedNoteId s)\<rparr>"

section \<open>Sequences of intents\<close>

text \<open>
  An intent of the user together with the remote store as it answers that intent. The
  load is the \<^verbatim>\<open>fetchNotes\<close> of the mount effect.
\<close>

datatype intent =
    Load supabase
  | Select string
  | Create supabase
  | Update supabase Note
  | Delete supabase string

fun step :: "state \<Rightarrow> intent \<Rightarrow> state" where
  "step s (Load db) = fetchNotes db s"
| "step s (Select i) = handleNoteSelect i s"
| "step s (Create db) = handleNoteCreate db s"
| "step s (Update db n) = handleNoteUpdate db n s"
| "step s (Delete db i) = handleNoteDelete db i s"

definition run :: "state \<Rightarrow> intent list \<Rightarrow> state" where
  "run s ops = foldl step s ops"

text \<open>The error with which the remote call of an intent fails, if it fails.\<close>

fun error_of :: "intent \<Rightarrow> StoreError option" where
  "error_of (Load db) = error (select_order db)"
| "error_of (Select i) = None"
| "error_of (Create db) = error (insert_single db newNote)"
| "error_of (Update db n) = error (update_eq db n (note_id n))"
| "error_of (Delete db i) = error (delete_eq db i)"

text \<open>A create, update or delete whose remote call succeeds (a create returns the row).\<close>

fun mutation_ok :: "intent \<Rightarrow> bool" where
  "mutation_ok (Create db) =
     (error (insert_single db newNote) = None \<and> data (insert_single db newNote) \<noteq> None)"
| "mutation_ok (Update db n) = (error (update_eq db n (note_id n)) = None)"
| "mutation_ok (Delete db i) = (error (delete_eq db i) = None)"
| "mutation_ok _ = False"

text \<open>The identifiers of the notes created by a sequence of intents, the newest first.\<close>

fun created_by :: "intent \<Rightarrow> string list" where
  "created_by (Create db) =
     (case data (insert_single db newNote) of Some d \<Rightarrow> [note_id d] | None \<Rightarrow> [])"
| "created_by _ = []"

definition created :: "intent list \<Rightarrow> string list" where
  "created ops = concat (map created_by (rev ops))"

text \<open>The selection is unset or names a note of the collection.\<close>

definition selection_valid :: "state \<Rightarrow> bool" where
  "selection_valid s =
     (case selectedNoteId s of None \<Rightarrow> True | Some i \<Rightarrow> i \<in> set (map note_id (notes s)))"

subsection \<open>Concrete notes and remote stores for the examples\<close>

definition N1 :: Note where
  "N1 = \<lparr>note_id = ''1'', title = ''New Note'', content = [],
     category = ''Uncategorized'', created_at = ''2024-01-01''\<rparr>"

definition N2 :: Note where
  "N2 = \<lparr>note_id = ''2'', title = ''New Note'', content = [],
     category = ''Uncategorized'', created_at = ''2024-01-02''\<rparr>"

text \<open>A remote store that holds \<open>rows\<close>, answers an insert with \<open>row\<close>, and never fails.\<close>

definition ok_store :: "Note list \<Rightarrow> Note \<Rightarrow> supabase" where
  "ok_store rows row =
     \<lparr>select_order = \<lparr>data = Some rows, error = None\<rparr>,
      insert_single = (\<lambda>d. \<lparr>data = Some (row\<lparr>title := draft_title d,
         content := draft_content d, category := draft_category d\<rparr>), error = None\<rparr>),
      update_eq = (\<lambda>n i. \<lparr>data = None, error = None\<rparr>),
      delete_eq = (\<lambda>i. \<lparr>data = None, error = None\<rparr>)\<rparr>"

text \<open>A remote store every call of which fails.\<close>

definition down_store :: supabase where
  "down_store =
     \<lparr>select_order = \<lparr>data = None, error = Some (StoreError ''offline'')\<rparr>,
      insert_single = (\<lambda>d. \<lparr>data = None, error = Some (StoreError ''offline'')\<rparr>),
      update_eq = (\<lambda>n i. \<lparr>data = None, error = Some (StoreError ''offline'')\<rparr>),
      delete_eq = (\<lambda>i. \<lparr>data = None, error = Some (StoreError ''offline'')\<rparr>)\<rparr>"

section \<open>Deleting the selected note\<close>

text \<open>
  C1. The claim: when the deleted note is the selected one and the remote delete succeeds,
  the selected note afterwards is the first note of the remaining collection (or absent
  when nothing remains). The scenario of the specification: with the collection
  \<open>[N2, N1]\<close> and \<open>N2\<close> selected, deleting \<open>N2\<close> leaves \<open>[N1]\<close>, and the claim asks for
  \<open>N1\<close> to be selected. The handler reads \<^verbatim>\<open>notes[0]\<close> from the collection before the
  deletion, so the selection stays on the deleted \<open>N2\<close> and no note is selected.
\<close>

theorem delete_selected_first_dangles:
  "notes (handleNoteDelete (ok_store [] N1) ''2''
      \<lparr>notes = [N2, N1], selectedNoteId = Some ''2'', loading = False, console = []\<rparr>) = [N1]
   \<and> selectedNoteId (handleNoteDelete (ok_store [] N1) ''2''
      \<lparr>notes = [N2, N1], selectedNoteId = Some ''2'', loading = False, console = []\<rparr>)
       = Some ''2''
   \<and> selectedNote (handleNoteDelete (ok_store [] N1) ''2''
      \<lparr>notes = [N2, N1], selectedNoteId = Some ''2'', loading = False, console = []\<rparr>) = None"
  by (simp add: handleNoteDelete_def ok_store_def selectedNote_def N1_def N2_def)

section \<open>Selecting a note\<close>




section \<open>Validity of the selection\<close>

text \<open>
  C2. The claim: in every state reached by a sequence of intents the selection is unset
  or names a note of the collection, also right after a delete. The scenario of the
  specification, in which every remote call succeeds: load the empty store, create \<open>N1\<close>,
  create \<open>N2\<close>, delete \<open>N2\<close>. Up to the delete the selection is valid (\<open>N2\<close> is selected
  and stands first). The delete succeeds, and afterwards the selection still names the
  deleted \<open>N2\<close>: \<^verbatim>\<open>handleNoteDelete\<close> moves the selection to \<^verbatim>\<open>notes[0]\<close> of the
  collection before the deletion, which is the note just removed. The state after the
  delete violates the claim.
\<close>

theorem delete_leaves_invalid_selection:
  "selection_valid (run initial
      [Load (ok_store [] N1), Create (ok_store [] N1), Create (ok_store [] N2)])
   \<and> selectedNoteId (run initial
      [Load (ok_store [] N1), Create (ok_store [] N1), Create (ok_store [] N2)]) = Some ''2''
   \<and> error_of (Load (ok_store [] N1)) = None
   \<and> error_of (Create (ok_store [] N1)) = None
   \<and> error_of (Create (ok_store [] N2)) = None
   \<and> error_of (Delete (ok_store [N1] N1) ''2'') = None
   \<and> notes (run initial
      [Load (ok_store [] N1), Create (ok_store [] N1), Create (ok_store [] N2),
       Delete (ok_store [N1] N1) ''2'']) = [N1]
   \<and> selectedNoteId (run initial
      [Load (ok_store [] N1), Create (ok_store [] N1), Create (ok_store [] N2),
       Delete (ok_store [N1] N1) ''2'']) = Some ''2''
   \<and> \<not> selection_valid (run initial
      [Load (ok_store [] N1), Create (ok_store [] N1), Create (ok_store [] N2),
       Delete (ok_store [N1] N1) ''2''])"
  by (simp add: run_def initial_def selection_valid_def fetchNotes_def handleNoteCreate_def
      handleNoteDelete_def ok_store_def newNote_def falsy_def N1_def N2_def)

section \<open>Order of the collection\<close>

lemma run_snoc: "run s (ops @ [x]) = step (run s ops) x"
  by (simp add: run_def)

lemma update_keeps_ids:
  "map note_id (map (\<lambda>note. if note_id note = note_id u then u else note) xs) = map note_id xs"
  by (induction xs) auto

lemma created_snoc: "created (ops @ [x]) = created_by x @ created ops"
  by (simp add: created_def)

lemma step_subseq:
  assumes "mutation_ok x"
  shows "subseq (map note_id (notes (step s x))) (created_by x @ map note_id (notes s))"
proof (cases x)
  case (Create db)
  with assms show ?thesis by (auto simp: handleNoteCreate_def)
next
  case (Update db u)
  with assms show ?thesis
    by (simp add: handleNoteUpdate_def update_keeps_ids del: map_map)
next
  case (Delete db i)
  with assms show ?thesis by (simp add: handleNoteDelete_def subseq_map)
qed (use assms in simp_all)

lemma run_subseq:
  "list_all mutation_ok ops \<Longrightarrow>
   subseq (map note_id (notes (run s ops))) (created ops @ map note_id (notes s))"
proof (induction ops rule: rev_induct)
  case Nil
  show ?case by (simp add: run_def created_def)
next
  case (snoc x ops)
  then have ok: "mutation_ok x" and rest: "list_all mutation_ok ops" by simp_all
  have last_step: "subseq (map note_id (notes (run s (ops @ [x]))))
             (created_by x @ map note_id (notes (run s ops)))"
    unfolding run_snoc by (rule step_subseq [OF ok])
  have before: "subseq (created_by x @ map note_id (notes (run s ops)))
             (created_by x @ created ops @ map note_id (notes s))"
    using snoc.IH [OF rest] by (simp add: subseq_append')
  from subseq_order.trans [OF last_step before] show ?case by (simp add: created_snoc)
qed

text \<open>
  C4. Along every sequence of creates, updates and deletes whose remote calls succeed,
  the collection keeps the most recently created note first. Three facts say so. The
  identifiers of the collection, in its order, are a subsequence of the identifiers
  created by the sequence, newest first, followed by the identifiers of the starting
  collection in their order: nothing is ever reordered. A further successful create puts
  the new note in front of the collection as it was. A further successful update leaves
  the sequence of identifiers as it was.
\<close>

theorem collection_keeps_newest_first:
  assumes "list_all mutation_ok ops"
  shows "subseq (map note_id (notes (run s ops))) (created ops @ map note_id (notes s))
    \<and> (\<forall>(db::supabase) d.
          error (insert_single db newNote) = None \<and> data (insert_single db newNote) = Some d
          \<longrightarrow> notes (run s (ops @ [Create db])) = d # notes (run s ops))
    \<and> (\<forall>(db::supabase) u.
          error (update_eq db u (note_id u)) = None
          \<longrightarrow> map note_id (notes (run s (ops @ [Update db u])))
              = map note_id (notes (run s ops)))"
proof (intro conjI allI impI)
  show "subseq (map note_id (notes (run s ops))) (created ops @ map note_id (notes s))"
    by (rule run_subseq [OF assms])
next
  fix db :: supabase and d
  assume "error (insert_single db newNote) = None \<and> data (insert_single db newNote) = Some d"
  then show "notes (run s (ops @ [Create db])) = d # notes (run s ops)"
    by (simp add: run_snoc handleNoteCreate_def)
next
  fix db :: supabase and u
  assume "error (update_eq db u (note_id u)) = None"
  then show "map note_id (notes (run s (ops @ [Update db u]))) = map note_id (notes (run s ops))"
    by (simp add: run_snoc handleNoteUpdate_def update_keeps_ids del: map_map)
qed

theorem collection_keeps_newest_first_witness:
  "list_all mutation_ok [Create (ok_store [] N1), Update (ok_store [] N1) (N1\<lparr>title := ''a''\<rparr>)]
   \<and> subseq
       (map note_id (notes (run initial
          [Create (ok_store [] N1), Update (ok_store [] N1) (N1\<lparr>title := ''a''\<rparr>)])))
       (created [Create (ok_store [] N1), Update (ok_store [] N1) (N1\<lparr>title := ''a''\<rparr>)]
          @ map note_id (notes initial))
   \<and> notes (run initial
        ([Create (ok_store [] N1), Update (ok_store [] N1) (N1\<lparr>title := ''a''\<rparr>)]
          @ [Create (ok_store [] N2)]))
      = N2 # notes (run initial
          [Create (ok_store [] N1), Update (ok_store [] N1) (N1\<lparr>title := ''a''\<rparr>)])
   \<and> map note_id (notes (run initial
        ([Create (ok_store [] N1), Update (ok_store [] N1) (N1\<lparr>title := ''a''\<rparr>)]
          @ [Update (ok_store [] N1) (N1\<lparr>content := ''b''\<rparr>)])))
      = map note_id (notes (run initial
          [Create (ok_store [] N1), Update (ok_store [] N1) (N1\<lparr>title := ''a''\<rparr>)]))"
proof -
  have ok: "list_all mutation_ok
      [Create (ok_store [] N1), Update (ok_store [] N1) (N1\<lparr>title := ''a''\<rparr>)]"
    by (simp add: ok_store_def)
  have ins: "error (insert_single (ok_store [] N2) newNote) = None
      \<and> data (insert_single (ok_store [] N2) newNote) = Some N2"
    by (simp add: ok_store_def newNote_def N2_def)
  have upd: "error (update_eq (ok_store [] N1) (N1\<lparr>content := ''b''\<rparr>)
      (note_id (N1\<lparr>content := ''b''\<rparr>))) = None"
    by (simp add: ok_store_def)
  from collection_keeps_newest_first [OF ok, of initial] ok ins upd show ?thesis
    by blast
qed

section \<open>Failed remote calls\<close>

text \<open>
  C5. For each of load, create, update and delete: when the remote call fails with an
  error, the collection and the selection after the handler are those before it (so a
  failed update leaves every entry as it was), and the error is written once to the
  console. The handler returns a state in every case: its \<^verbatim>\<open>catch\<close> block takes the
  error, and nothing is thrown to the caller.
\<close>

theorem failed_call_changes_nothing:
  "error_of x = Some e \<Longrightarrow>
     notes (step s x) = notes s
     \<and> selectedNoteId (step s x) = selectedNoteId s
     \<and> (\<exists>msg. console (step s x) = console s @ [(msg, e)])"
  by (cases x)
    (simp_all add: fetchNotes_def handleNoteCreate_def handleNoteUpdate_def
      handleNoteDelete_def)

theorem failed_call_changes_nothing_witness:
  "error_of (Update down_store (N1\<lparr>title := ''a''\<rparr>)) = Some (StoreError ''offline'')
   \<and> notes (step \<lparr>notes = [N2, N1], selectedNoteId = Some ''1'', loading = False,
        console = []\<rparr> (Update down_store (N1\<lparr>title := ''a''\<rparr>))) = [N2, N1]
   \<and> selectedNoteId (step \<lparr>notes = [N2, N1], selectedNoteId = Some ''1'', loading = False,
        console = []\<rparr> (Update down_store (N1\<lparr>title := ''a''\<rparr>))) = Some ''1''
   \<and> length (console (step \<lparr>notes = [N2, N1], selectedNoteId = Some ''1'', loading = False,
        console = []\<rparr> (Update down_store (N1\<lparr>title := ''a''\<rparr>)))) = 1"
proof -
  have e: "error_of (Update down_store (N1\<lparr>title := ''a''\<rparr>)) = Some (StoreError ''offline'')"
    by (simp add: down_store_def)
  from failed_call_changes_nothing [OF e,
      of "\<lparr>notes = [N2, N1], selectedNoteId = Some ''1'', loading = False, console = []\<rparr>"] e
  show ?thesis by auto
qed

section \<open>Loading\<close>

text \<open>
  C6. A load whose remote list succeeds replaces the collection by the fetched sequence
  and, when no note was selected, selects the first fetched note if there is one (and
  leaves the selection unset if there is none). A load whose remote list fails leaves the
  collection and the selection as they were.
\<close>

theorem load_replaces_and_selects_first:
  "(select_order db = \<lparr>data = Some d, error = None\<rparr> \<longrightarrow>
      notes (fetchNotes db s) = d
      \<and> (selectedNoteId s = None \<and> d \<noteq> []
           \<longrightarrow> selectedNoteId (fetchNotes db s) = Some (note_id (hd d)))
      \<and> (selectedNoteId s = None \<and> d = [] \<longrightarrow> selectedNoteId (fetchNotes db s) = None))
   \<and> (error (select_order db) \<noteq> None \<longrightarrow>
      notes (fetchNotes db s) = notes s
      \<and> selectedNoteId (fetchNotes db s) = selectedNoteId s)"
  by (cases d) (auto simp: fetchNotes_def falsy_def)

theorem load_replaces_and_selects_first_witness:
  "select_order (ok_store [N2, N1] N1) = \<lparr>data = Some [N2, N1], error = None\<rparr>
   \<and> selectedNoteId initial = None
   \<and> notes (fetchNotes (ok_store [N2, N1] N1) initial) = [N2, N1]
   \<and> selectedNoteId (fetchNotes (ok_store [N2, N1] N1) initial) = Some ''2''
   \<and> select_order (ok_store [] N1) = \<lparr>data = Some [], error = None\<rparr>
   \<and> selectedNoteId (fetchNotes (ok_store [] N1) initial) = None
   \<and> error (select_order down_store) \<noteq> None
   \<and> notes (fetchNotes down_store
        \<lparr>notes = [N1], selectedNoteId = Some ''1'', loading = True, console = []\<rparr>) = [N1]
   \<and> selectedNoteId (fetchNotes down_store
        \<lparr>notes = [N1], selectedNoteId = Some ''1'', loading = True, console = []\<rparr>) = Some ''1''"
proof -
  have full: "select_order (ok_store [N2, N1] N1) = \<lparr>data = Some [N2, N1], error = None\<rparr>"
    by (simp add: ok_store_def)
  have empty: "select_order (ok_store [] N1) = \<lparr>data = Some [], error = None\<rparr>"
    by (simp add: ok_store_def)
  have down: "error (select_order down_store) \<noteq> None"
    by (simp add: down_store_def)
  have unset: "selectedNoteId initial = None"
    by (simp add: initial_def)
  from load_replaces_and_selects_first [of "ok_store [N2, N1] N1" "[N2, N1]" initial]
    load_replaces_and_selects_first [of "ok_store [] N1" "[]" initial]
    load_replaces_and_selects_first [of down_store "[]"
      "\<lparr>notes = [N1], selectedNoteId = Some ''1'', loading = True, console = []\<rparr>"]
    full empty down unset
  show ?thesis by (simp add: N2_def)
qed

text \<open>
  C9. Loading twice from a remote store that answers the same both times gives the
  collection and the selection that loading once gives: the second load changes neither,
  whatever the selection is, and so in particular when it names a loaded note.
\<close>

theorem load_twice_is_load_once:
  "notes (fetchNotes db (fetchNotes db s)) = notes (fetchNotes db s)
   \<and> selectedNoteId (fetchNotes db (fetchNotes db s)) = selectedNoteId (fetchNotes db s)"
  by (auto simp: fetchNotes_def falsy_def split: option.splits)

section \<open>Creating\<close>

text \<open>
  C7. With a remote store that returns the inserted row with the title, content and
  category of the draft it was sent: a create whose remote call succeeds puts the returned
  note in front of the collection, that note has the title \<open>New Note\<close>, the empty content
  and the category \<open>Uncategorized\<close>, and it becomes the selected one; a create whose
  remote call fails leaves the collection and the selection as they were, and the draft
  is stored nowhere.
\<close>

theorem create_prepends_default_note:
  assumes "\<forall>draft n. data (insert_single db draft) = Some n \<longrightarrow>
     title n = draft_title draft \<and> content n = draft_content draft
     \<and> category n = draft_category draft"
  shows "(error (insert_single db newNote) = None \<and> data (insert_single db newNote) = Some d \<longrightarrow>
       notes (handleNoteCreate db s) = d # notes s
       \<and> title d = ''New Note'' \<and> content d = [] \<and> category d = ''Uncategorized''
       \<and> selectedNoteId (handleNoteCreate db s) = Some (note_id d))
   \<and> (error (insert_single db newNote) \<noteq> None \<longrightarrow>
       notes (handleNoteCreate db s) = notes s
       \<and> selectedNoteId (handleNoteCreate db s) = selectedNoteId s)"
proof (intro conjI impI)
  assume ok: "error (insert_single db newNote) = None \<and> data (insert_single db newNote) = Some d"
  then show "notes (handleNoteCreate db s) = d # notes s"
    and "selectedNoteId (handleNoteCreate db s) = Some (note_id d)"
    by (simp_all add: handleNoteCreate_def)
  from ok assms have "title d = draft_title newNote \<and> content d = draft_content newNote
     \<and> category d = draft_category newNote" by blast
  then show "title d = ''New Note''" and "content d = []" and "category d = ''Uncategorized''"
    by (simp_all add: newNote_def)
next
  assume "error (insert_single db newNote) \<noteq> None"
  then show "notes (handleNoteCreate db s) = notes s"
    and "selectedNoteId (handleNoteCreate db s) = selectedNoteId s"
    by (auto simp: handleNoteCreate_def)
qed

theorem create_prepends_default_note_witness:
  "notes (handleNoteCreate (ok_store [] N1) initial) = [N1]
   \<and> title N1 = ''New Note'' \<and> content N1 = [] \<and> category N1 = ''Uncategorized''
   \<and> selectedNoteId (handleNoteCreate (ok_store [] N1) initial) = Some ''1''
   \<and> notes (handleNoteCreate down_store initial) = []
   \<and> selectedNoteId (handleNoteCreate down_store initial) = None"
proof -
  have echo: "\<forall>draft n. data (insert_single (ok_store [] N1) draft) = Some n \<longrightarrow>
     title n = draft_title draft \<and> content n = draft_content draft
     \<and> category n = draft_category draft"
    by (auto simp: ok_store_def)
  have echo_down: "\<forall>draft n. data (insert_single down_store draft) = Some n \<longrightarrow>
     title n = draft_title draft \<and> content n = draft_content draft
     \<and> category n = draft_category draft"
    by (simp add: down_store_def)
  have row: "insert_single (ok_store [] N1) newNote = \<lparr>data = Some N1, error = None\<rparr>"
    by (simp add: ok_store_def newNote_def N1_def)
  have fails: "error (insert_single down_store newNote) \<noteq> None"
    by (simp add: down_store_def)
  show ?thesis
    using create_prepends_default_note [OF echo, of N1 initial]
      create_prepends_default_note [OF echo_down, of N1 initial] row fails
    by (simp add: initial_def N1_def)
qed

section \<open>Updating\<close>

lemma update_absent:
  "note_id u \<notin> set (map note_id xs) \<Longrightarrow>
   map (\<lambda>note. if note_id note = note_id u then u else note) xs = xs"
  by (induction xs) auto

lemma update_distinct:
  assumes "distinct (map note_id xs)" and "k < length xs" and "note_id (xs ! k) = note_id u"
  shows "map (\<lambda>note. if note_id note = note_id u then u else note) xs = xs[k := u]"
proof (rule nth_equalityI)
  show "length (map (\<lambda>note. if note_id note = note_id u then u else note) xs)
      = length (xs[k := u])"
    by simp
next
  fix j
  assume "j < length (map (\<lambda>note. if note_id note = note_id u then u else note) xs)"
  then have j: "j < length xs" by simp
  show "map (\<lambda>note. if note_id note = note_id u then u else note) xs ! j = xs[k := u] ! j"
  proof (cases "j = k")
    case True
    with assms j show ?thesis by simp
  next
    case False
    have "map note_id xs ! j \<noteq> map note_id xs ! k"
      using assms(1,2) j False by (simp add: nth_eq_iff_index_eq del: nth_map)
    then have "note_id (xs ! j) \<noteq> note_id u" using assms(2,3) j by simp
    with j False show ?thesis by simp
  qed
qed

text \<open>
  C8. An update whose remote call succeeds keeps the length of the collection and, at
  every position, puts the given note where the entry has the identifier of the given
  note and keeps the entry otherwise; when the identifiers of the collection are distinct
  and the entry at position \<open>k\<close> has that identifier, the new collection is the old one
  with the given note at position \<open>k\<close>. The selection is never changed by an update, and
  when no entry has the identifier of the given note the collection is unchanged.
\<close>

theorem update_replaces_in_place:
  "(error (update_eq db u (note_id u)) = None \<longrightarrow>
      length (notes (handleNoteUpdate db u s)) = length (notes s)
      \<and> (\<forall>k < length (notes s). notes (handleNoteUpdate db u s) ! k =
            (if note_id (notes s ! k) = note_id u then u else notes s ! k))
      \<and> (\<forall>k. distinct (map note_id (notes s)) \<and> k < length (notes s)
              \<and> note_id (notes s ! k) = note_id u
            \<longrightarrow> notes (handleNoteUpdate db u s) = (notes s)[k := u]))
   \<and> selectedNoteId (handleNoteUpdate db u s) = selectedNoteId s
   \<and> (note_id u \<notin> set (map note_id (notes s)) \<longrightarrow> notes (handleNoteUpdate db u s) = notes s)"
proof (intro conjI impI allI)
  assume "error (update_eq db u (note_id u)) = None"
  then have n: "notes (handleNoteUpdate db u s) =
      map (\<lambda>note. if note_id note = note_id u then u else note) (notes s)"
    by (simp add: handleNoteUpdate_def)
  show "length (notes (handleNoteUpdate db u s)) = length (notes s)"
    by (simp add: n)
  show "notes (handleNoteUpdate db u s) ! k =
      (if note_id (notes s ! k) = note_id u then u else notes s ! k)"
    if "k < length (notes s)" for k
    using that by (simp add: n)
  show "notes (handleNoteUpdate db u s) = (notes s)[k := u]"
    if "distinct (map note_id (notes s)) \<and> k < length (notes s)
        \<and> note_id (notes s ! k) = note_id u" for k
    using that by (simp add: n update_distinct)
next
  show "selectedNoteId (handleNoteUpdate db u s) = selectedNoteId s"
    by (simp add: handleNoteUpdate_def split: option.splits)
next
  assume "note_id u \<notin> set (map note_id (notes s))"
  then show "notes (handleNoteUpdate db u s) = notes s"
    by (simp add: handleNoteUpdate_def update_absent split: option.splits del: set_map)
qed

theorem update_replaces_in_place_witness:
  "error (update_eq (ok_store [] N1) (N1\<lparr>title := ''a''\<rparr>) (note_id (N1\<lparr>title := ''a''\<rparr>))) = None
   \<and> distinct (map note_id [N2, N1]) \<and> (1::nat) < length [N2, N1]
   \<and> note_id ([N2, N1] ! 1) = note_id (N1\<lparr>title := ''a''\<rparr>)
   \<and> notes (handleNoteUpdate (ok_store [] N1) (N1\<lparr>title := ''a''\<rparr>)
        \<lparr>notes = [N2, N1], selectedNoteId = Some ''2'', loading = False, console = []\<rparr>)
      = [N2, N1\<lparr>title := ''a''\<rparr>]
   \<and> selectedNoteId (handleNoteUpdate (ok_store [] N1) (N1\<lparr>title := ''a''\<rparr>)
        \<lparr>notes = [N2, N1], selectedNoteId = Some ''2'', loading = False, console = []\<rparr>)
      = Some ''2''
   \<and> note_id (N1\<lparr>title := ''a''\<rparr>) \<notin> set (map note_id [N2])
   \<and> notes (handleNoteUpdate (ok_store [] N1) (N1\<lparr>title := ''a''\<rparr>)
        \<lparr>notes = [N2], selectedNoteId = Some ''2'', loading = False, console = []\<rparr>) = [N2]"
proof -
  let ?db = "ok_store [] N1"
  let ?u = "N1\<lparr>title := ''a''\<rparr>"
  let ?s = "\<lparr>notes = [N2, N1], selectedNoteId = Some ''2'', loading = False, console = []\<rparr>"
  let ?t = "\<lparr>notes = [N2], selectedNoteId = Some ''2'', loading = False, console = []\<rparr>"
  have ok: "error (update_eq ?db ?u (note_id ?u)) = None"
    by (simp add: ok_store_def)
  have present: "distinct (map note_id (notes ?s)) \<and> (1::nat) < length (notes ?s)
      \<and> note_id (notes ?s ! 1) = note_id ?u"
    by (simp add: N1_def N2_def)
  have absent: "note_id ?u \<notin> set (map note_id (notes ?t))"
    by (simp add: N1_def N2_def)
  have replaced: "notes (handleNoteUpdate ?db ?u ?s) = (notes ?s)[1 := ?u]"
    using update_replaces_in_place [of ?db ?u ?s] ok present by blast
  have selection: "selectedNoteId (handleNoteUpdate ?db ?u ?s) = selectedNoteId ?s"
    using update_replaces_in_place [of ?db ?u ?s] by blast
  have untouched: "notes (handleNoteUpdate ?db ?u ?t) = notes ?t"
    using update_replaces_in_place [of ?db ?u ?t] absent by blast
  from ok present absent replaced selection untouched show ?thesis by simp
qed

section \<open>Deleting a note that is not selected\<close>

text \<open>
  C10. When the identifier given to delete is not the selected one, the selection after
  the handler is the selection before it, whether the remote call succeeds or fails; on
  success the collection is the old one without the entries of that identifier, the
  others in their order, and on failure it is the old one. The same holds of the
  in-memory variant of the handler, which has no remote call.
\<close>

theorem delete_other_keeps_selection:
  "(selectedNoteId s \<noteq> Some i \<longrightarrow>
      selectedNoteId (handleNoteDelete db i s) = selectedNoteId s
      \<and> (error (delete_eq db i) = None \<longrightarrow>
           notes (handleNoteDelete db i s) = filter (\<lambda>note. note_id note \<noteq> i) (notes s))
      \<and> (error (delete_eq db i) \<noteq> None \<longrightarrow> notes (handleNoteDelete db i s) = notes s))
   \<and> (local_selectedNoteId t \<noteq> Some i \<longrightarrow>
      local_selectedNoteId (handleNoteDelete_local i t) = local_selectedNoteId t
      \<and> local_notes (handleNoteDelete_local i t)
          = filter (\<lambda>note. note_id note \<noteq> i) (local_notes t))"
  by (auto simp: handleNoteDelete_def handleNoteDelete_local_def split: option.splits)

theorem delete_other_keeps_selection_witness:
  "Some ''2'' \<noteq> Some ''1''
   \<and> selectedNoteId (handleNoteDelete (ok_store [] N1) ''1''
        \<lparr>notes = [N2, N1], selectedNoteId = Some ''2'', loading = False, console = []\<rparr>)
      = Some ''2''
   \<and> notes (handleNoteDelete (ok_store [] N1) ''1''
        \<lparr>notes = [N2, N1], selectedNoteId = Some ''2'', loading = False, console = []\<rparr>) = [N2]
   \<and> selectedNoteId (handleNoteDelete down_store ''1''
        \<lparr>notes = [N2, N1], selectedNoteId = Some ''2'', loading = False, console = []\<rparr>)
      = Some ''2''
   \<and> notes (handleNoteDelete down_store ''1''
        \<lparr>notes = [N2, N1], selectedNoteId = Some ''2'', loading = False, console = []\<rparr>)
      = [N2, N1]
   \<and> local_selectedNoteId (handleNoteDelete_local ''1''
        \<lparr>local_notes = [N2, N1], local_selectedNoteId = Some ''2''\<rparr>) = Some ''2''
   \<and> local_notes (handleNoteDelete_local ''1''
        \<lparr>local_notes = [N2, N1], local_selectedNoteId = Some ''2''\<rparr>) = [N2]"
proof -
  have ok: "error (delete_eq (ok_store [] N1) ''1'') = None"
    by (simp add: ok_store_def)
  have fails: "error (delete_eq down_store ''1'') \<noteq> None"
    by (simp add: down_store_def)
  from delete_other_keeps_selection [of
      "\<lparr>notes = [N2, N1], selectedNoteId = Some ''2'', loading = False, console = []\<rparr>"
      "''1''" "ok_store [] N1" "\<lparr>local_notes = [N2, N1], local_selectedNoteId = Some ''2''\<rparr>"]
    delete_other_keeps_selection [of
      "\<lparr>notes = [N2, N1], selectedNoteId = Some ''2'', loading = False, console = []\<rparr>"
      "''1''" down_store "\<lparr>local_notes = [N2, N1], local_selectedNoteId = Some ''2''\<rparr>"]
    ok fails
  show ?thesis by (simp add: N1_def N2_def)
qed

end
